theory Spec2Isabelle
  imports Complex_Main
begin

section \<open>OCR orchestrator (enhanced\_ocr\_service.py, as printed in OCR\_HYBRID\_MODE\_DOCUMENTATION.md)\<close>

subsection \<open>Python strings\<close>

text \<open>
  A Python \<^verbatim>\<open>str\<close> is a sequence of Unicode code points; \<^verbatim>\<open>len\<close> counts code points.
  The text of an OCR result is therefore a list of code points, not of bytes.
\<close>

type_synonym pystr = "nat list"

definition py :: "string \<Rightarrow> pystr" where
  "py s = map of_char s"

text \<open>
  The code points at which \<^verbatim>\<open>str.split()\<close> (no argument) separates: the characters for which
  \<^verbatim>\<open>str.isspace\<close> holds.
\<close>

definition is_space :: "nat \<Rightarrow> bool" where
  "is_space c \<longleftrightarrow>
     (9 \<le> c \<and> c \<le> 13) \<or> (28 \<le> c \<and> c \<le> 32) \<or> c = 133 \<or> c = 160 \<or> c = 5760 \<or>
     (8192 \<le> c \<and> c \<le> 8202) \<or> c = 8232 \<or> c = 8233 \<or> c = 8239 \<or> c = 8287 \<or> c = 12288"

text \<open>
  \<^verbatim>\<open>text.split()\<close>: the maximal runs of non-whitespace, in order; no empty token.
  \<open>split_from cur cs\<close> scans \<open>cs\<close> with the current token \<open>cur\<close> held reversed.
\<close>

fun split_from :: "pystr \<Rightarrow> pystr \<Rightarrow> pystr list" where
  "split_from cur [] = (if cur = [] then [] else [rev cur])"
| "split_from cur (c # cs) =
     (if is_space c
      then (if cur = [] then split_from [] cs else rev cur # split_from [] cs)
      else split_from (c # cur) cs)"

definition split :: "pystr \<Rightarrow> pystr list" where
  "split s = split_from [] s"

subsection \<open>Python floats\<close>

text \<open>
  A Python \<^verbatim>\<open>float\<close> is an IEEE 754 binary64 number. A finite one is modelled by its exact
  value, a rational number; an operation computes the exact result and rounds it to the
  nearest double, a tie going to the even significand.

  \<open>round_half_even r\<close> is the integer nearest to \<open>r\<close>, the even one of the two when \<open>r\<close> lies
  halfway between them.
\<close>

definition round_half_even :: "rat \<Rightarrow> int" where
  "round_half_even r =
     (let f = \<lfloor>r\<rfloor>; d = r - of_int f
      in if d < 1 / 2 then f else if d > 1 / 2 then f + 1 else if even f then f else f + 1)"

text \<open>
  The doubles whose magnitude lies between \<open>2 ^ (q + 52)\<close> and \<open>2 ^ (q + 53)\<close> are the
  multiples of \<open>2 ^ q\<close> (53 bits of significand); \<open>q\<close> ranges from \<open>-1074\<close>, the spacing of
  the subnormal numbers, to \<open>971\<close>, the spacing below the largest double.
  \<open>ulp_exponent x\<close> is the \<open>q\<close> of the doubles around \<open>x\<close>.
\<close>

definition ulp_exponent :: "rat \<Rightarrow> int" where
  "ulp_exponent x = Max (set (-1074 # filter (\<lambda>q. 2 powi (q + 52) \<le> \<bar>x\<bar>) [-1074..971]))"

text \<open>
  \<open>to_double x\<close>: the double nearest to \<open>x\<close>. It is the value of the literal that denotes
  \<open>x\<close> (\<^verbatim>\<open>0.40\<close> is \<open>to_double (40 / 100)\<close>) and of the \<^verbatim>\<open>int\<close> \<open>x\<close> converted to
  \<^verbatim>\<open>float\<close>, and it leaves a double as it is. Magnitudes of \<open>2 ^ 1024\<close> and more, at
  which Python answers \<^verbatim>\<open>inf\<close> or raises \<^verbatim>\<open>OverflowError\<close>, are outside the model, as are
  the infinities and NaN: a confidence is a percentage and a score is at most 100.
\<close>

definition to_double :: "rat \<Rightarrow> rat" where
  "to_double x = of_int (round_half_even (x / 2 powi ulp_exponent x)) * 2 powi ulp_exponent x"

text \<open>
  \<^verbatim>\<open>x * y\<close> and \<^verbatim>\<open>x + y\<close> on floats \<open>x\<close> and \<open>y\<close>, and \<^verbatim>\<open>m / n\<close> on the ints \<open>m\<close> and
  \<open>n\<close> (true division, correctly rounded). In \<^verbatim>\<open>x * 100\<close> the int \<open>100\<close> is converted
  first, to the double of the same value.
\<close>

definition float_mul :: "rat \<Rightarrow> rat \<Rightarrow> rat" where
  "float_mul x y = to_double (x * y)"

definition float_add :: "rat \<Rightarrow> rat \<Rightarrow> rat" where
  "float_add x y = to_double (x + y)"

definition int_true_div :: "nat \<Rightarrow> nat \<Rightarrow> rat" where
  "int_true_div m n = to_double (of_nat m / of_nat n)"

subsection \<open>OCR results\<close>

text \<open>
  An OCR result is a Python dict. The keys the orchestrator reads or writes are the fields
  below (the key \<^verbatim>\<open>'text'\<close> is the field \<open>result_text\<close>); a key read with
  \<^verbatim>\<open>.get(key, default)\<close> is optional (\<open>None\<close> = key absent). \<open>success\<close> is the truth
  value of \<^verbatim>\<open>result.get('success')\<close>; \<open>ocr_engine\<close> is read by the log line only.
  The confidence is a Python number, an \<^verbatim>\<open>int\<close> or a \<^verbatim>\<open>float\<close>: the field holds its
  value. The comparison score is a \<^verbatim>\<open>float\<close>.
\<close>

record ocr_result =
  success :: bool
  result_text :: "pystr option"
  confidence :: "rat option"
  ocr_engine :: string
  hybrid_mode :: "bool option"
  comparison_score :: "rat option"

text \<open>
  \<^verbatim>\<open>QUALITY_THRESHOLD = 70.0\<close>. Python compares an \<^verbatim>\<open>int\<close> or a \<^verbatim>\<open>float\<close> with a
  \<^verbatim>\<open>float\<close> by their exact values.
\<close>

definition QUALITY_THRESHOLD :: rat where
  "QUALITY_THRESHOLD = 70"

text \<open>
  \<^verbatim>\<open>_compare_ocr_results(self, ocr_result, tesseract_result)\<close>. The assignment
  \<^verbatim>\<open>result['hybrid_mode'] = True\<close> and \<^verbatim>\<open>result['comparison_score'] = score\<close> update the
  returned dict. The score is computed in floats, the three terms added from left to right:
  \<^verbatim>\<open>ocr_confidence * 0.40\<close> converts an \<^verbatim>\<open>int\<close> confidence to \<^verbatim>\<open>float\<close> first;
  \<^verbatim>\<open>min(100, x)\<close> is \<open>x\<close> when \<open>x < 100\<close> and the int \<open>100\<close> otherwise; \<open>\<ge>\<close>
  compares two doubles.
\<close>

definition compare_ocr_results :: "ocr_result \<Rightarrow> ocr_result \<Rightarrow> ocr_result" where
  "compare_ocr_results ocr_result tesseract_result =
     (let ocr_text = (case result_text ocr_result of None \<Rightarrow> [] | Some t \<Rightarrow> t);
          ocr_confidence = (case confidence ocr_result of None \<Rightarrow> 0 | Some c \<Rightarrow> c);
          ocr_words = length (filter (\<lambda>w. length w > 2) (split ocr_text));
          ocr_score =
            float_add
              (float_add
                 (float_mul (to_double ocr_confidence) (to_double (40 / 100)))
                 (float_mul (min 100 (float_mul (int_true_div (length ocr_text) 500) 100))
                    (to_double (30 / 100))))
              (float_mul (min 100 (float_mul (int_true_div ocr_words 50) 100))
                 (to_double (30 / 100)));
          tesseract_text = (case result_text tesseract_result of None \<Rightarrow> [] | Some t \<Rightarrow> t);
          tesseract_confidence = (case confidence tesseract_result of None \<Rightarrow> 0 | Some c \<Rightarrow> c);
          tesseract_words = length (filter (\<lambda>w. length w > 2) (split tesseract_text));
          tesseract_score =
            float_add
              (float_add
                 (float_mul (to_double tesseract_confidence) (to_double (40 / 100)))
                 (float_mul (min 100 (float_mul (int_true_div (length tesseract_text) 500) 100))
                    (to_double (30 / 100))))
              (float_mul (min 100 (float_mul (int_true_div tesseract_words 50) 100))
                 (to_double (30 / 100)))
      in if ocr_score \<ge> tesseract_score
         then ocr_result\<lparr>hybrid_mode := Some True, comparison_score := Some ocr_score\<rparr>
         else tesseract_result\<lparr>hybrid_mode := Some True, comparison_score := Some tesseract_score\<rparr>)"

text \<open>
  The two engines are collaborators of the orchestrator: \<^verbatim>\<open>_try_ocrspace_with_fallback\<close> and
  \<^verbatim>\<open>_try_tesseract_ocr\<close>, each a function of the request (image, language, text regions)
  to a result dict. \<^verbatim>\<open>_fallback_text_extraction\<close> is the manual extraction that only the
  earlier, priority-order version of the orchestrator calls.
\<close>

record 'req ocr_service =
  try_ocrspace_with_fallback :: "'req \<Rightarrow> ocr_result"
  try_tesseract_ocr :: "'req \<Rightarrow> ocr_result"
  fallback_text_extraction :: "'req \<Rightarrow> ocr_result"

text \<open>
  What the orchestrator does besides returning: the calls it makes, in order. The state
  threaded through it is the log of the calls made so far; \<open>invoke c r calls\<close> is the call
  \<open>c\<close> that returns \<open>r\<close>, and it leaves its mark in the log.
\<close>

datatype call = TryOcrSpace | TryTesseract | CompareOcrResults | FallbackTextExtraction

definition invoke :: "call \<Rightarrow> 'a \<Rightarrow> call list \<Rightarrow> 'a \<times> call list" where
  "invoke c r calls = (r, calls @ [c])"

text \<open>
  The fatal error of the specification. The source of \<^verbatim>\<open>_try_multiple_ocr_methods\<close> holds no
  \<^verbatim>\<open>raise\<close>: every path ends in a \<^verbatim>\<open>return\<close>, so every branch of the model is an \<open>Inr\<close>.
\<close>

datatype ocr_error = OcrUnavailable

text \<open>
  \<^verbatim>\<open>_try_multiple_ocr_methods(self, processed_image, language, text_regions)\<close>, with hybrid
  mode. The result is paired with the log of the calls made.
\<close>

definition try_multiple_ocr_methods ::
  "'req ocr_service \<Rightarrow> 'req \<Rightarrow> (ocr_error + ocr_result) \<times> call list" where
  "try_multiple_ocr_methods self req =
     (case invoke TryOcrSpace (try_ocrspace_with_fallback self req) [] of
        (ocr_result, log1) \<Rightarrow>
          if success ocr_result
          then
            (let ocr_confidence = (case confidence ocr_result of None \<Rightarrow> 100 | Some c \<Rightarrow> c)
             in if ocr_confidence < QUALITY_THRESHOLD
                then
                  (case invoke TryTesseract (try_tesseract_ocr self req) log1 of
                     (tesseract_result, log2) \<Rightarrow>
                       if success tesseract_result
                       then
                         (case invoke CompareOcrResults
                                 (compare_ocr_results ocr_result tesseract_result) log2 of
                            (best_result, log3) \<Rightarrow> (Inr best_result, log3))
                       else (Inr ocr_result, log2))
                else (Inr ocr_result, log1))
          else
            (case invoke TryTesseract (try_tesseract_ocr self req) log1 of
               (tesseract_result, log2) \<Rightarrow> (Inr tesseract_result, log2)))"

text \<open>
  The earlier version of \<^verbatim>\<open>_try_multiple_ocr_methods\<close>, printed in
  COMPREHENSIVE\_OCR\_ENHANCEMENT\_SUMMARY.md: the engines in priority order (Tesseract, then
  OCR.space, then the manual extraction), without hybrid mode.
\<close>

definition try_multiple_ocr_methods_priority ::
  "'req ocr_service \<Rightarrow> 'req \<Rightarrow> (ocr_error + ocr_result) \<times> call list" where
  "try_multiple_ocr_methods_priority self req =
     (case invoke TryTesseract (try_tesseract_ocr self req) [] of
        (tesseract_result, log1) \<Rightarrow>
          if success tesseract_result
          then (Inr tesseract_result, log1)
          else
            (case invoke TryOcrSpace (try_ocrspace_with_fallback self req) log1 of
               (ocrspace_result, log2) \<Rightarrow>
                 if success ocrspace_result
                 then (Inr ocrspace_result, log2)
                 else
                   (case invoke FallbackTextExtraction (fallback_text_extraction self req) log2 of
                      (manual_result, log3) \<Rightarrow> (Inr manual_result, log3))))"

subsection \<open>The scoring formula, as the specification words it\<close>

definition word_count :: "pystr \<Rightarrow> nat" where
  "word_count t = length (filter (\<lambda>w. length w > 2) (split t))"

definition text_or_empty :: "ocr_result \<Rightarrow> pystr" where
  "text_or_empty r = (case result_text r of None \<Rightarrow> [] | Some t \<Rightarrow> t)"

definition confidence_or_zero :: "ocr_result \<Rightarrow> rat" where
  "confidence_or_zero r = (case confidence r of None \<Rightarrow> 0 | Some c \<Rightarrow> c)"

text \<open>
  \<open>score = 0.40 * confidence + 0.30 * min(100, len(text) / 500 * 100) +
  0.30 * min(100, wordCount(text) / 50 * 100)\<close>, in the arithmetic of the code.
\<close>

definition candidate_score :: "ocr_result \<Rightarrow> rat" where
  "candidate_score r =
     float_add
       (float_add
          (float_mul (to_double (40 / 100)) (to_double (confidence_or_zero r)))
          (float_mul (to_double (30 / 100))
             (min 100 (float_mul (int_true_div (length (text_or_empty r)) 500) 100))))
       (float_mul (to_double (30 / 100))
          (min 100 (float_mul (int_true_div (word_count (text_or_empty r)) 50) 100)))"

definition tag_hybrid :: "ocr_result \<Rightarrow> ocr_result" where
  "tag_hybrid r = r\<lparr>hybrid_mode := Some True, comparison_score := Some (candidate_score r)\<rparr>"


section \<open>Receipt parsing core\<close>

text \<open>
  The parser of the specification (sections 3, 4.3, 4.4 and 4.6) is
  \<^verbatim>\<open>ocr-service/intelligent_receipt_parser.py\<close>, which is not among the files of the
  repository at hand: only reports about it are. Its definitions below are therefore
  modelled from the specification's words, each marked so.
\<close>

subsection \<open>Characters, tokens and amounts\<close>

text \<open>
  Modelled from the spec: the reading of a line as characters and whitespace-separated
  tokens (the parser's own string handling is missing). A line is a \<open>string\<close>:
  characters 0 to 255.
\<close>

definition is_digit :: "char \<Rightarrow> bool" where
  "is_digit c \<longleftrightarrow> c \<in> set ''0123456789''"

definition is_blank :: "char \<Rightarrow> bool" where
  "is_blank c \<longleftrightarrow> c = CHR '' '' \<or> c = CHR 0x09"

text \<open>
  Modelled from the spec: the whitespace-separated tokens of a line, left to right (the
  parser's tokenisation is missing).
\<close>

fun tokens_from :: "string \<Rightarrow> string \<Rightarrow> string list" where
  "tokens_from cur [] = (if cur = [] then [] else [rev cur])"
| "tokens_from cur (c # cs) =
     (if is_blank c
      then (if cur = [] then tokens_from [] cs else rev cur # tokens_from [] cs)
      else tokens_from (c # cur) cs)"

definition tokens :: "string \<Rightarrow> string list" where
  "tokens s = tokens_from [] s"

definition digit_val :: "char \<Rightarrow> nat" where
  "digit_val c = of_char c - 48"

definition digits_val :: "string \<Rightarrow> nat" where
  "digits_val ds = foldl (\<lambda>n c. 10 * n + digit_val c) 0 ds"

text \<open>
  Modelled from the spec: a decimal numeral (the parser's number pattern is missing) is
  digits, optionally followed by a point and more digits (\<open>430\<close>, \<open>430.0\<close>,
  \<open>430.00\<close>); its value is exact.
\<close>

definition parse_decimal :: "string \<Rightarrow> rat option" where
  "parse_decimal s =
     (let ip = takeWhile is_digit s; rest = dropWhile is_digit s
      in if ip = [] then None
         else (case rest of
                 [] \<Rightarrow> Some (of_nat (digits_val ip))
               | c # fp \<Rightarrow>
                   if c = CHR ''.'' \<and> fp \<noteq> [] \<and> list_all is_digit fp
                   then Some (of_nat (digits_val ip) + of_nat (digits_val fp) / 10 ^ length fp)
                   else None))"

text \<open>
  Modelled from the spec: ``strip thousands-separator commas'', and the currency sign in
  front of an amount (the parser's substitutions are missing).
\<close>

definition strip_commas :: "string \<Rightarrow> string" where
  "strip_commas s = filter (\<lambda>c. c \<noteq> CHR '','') s"

definition strip_currency :: "string \<Rightarrow> string" where
  "strip_currency t = (case t of [] \<Rightarrow> [] | c # r \<Rightarrow> if c = CHR ''$'' then r else t)"

text \<open>
  Modelled from the spec: the numeric parse of sections 4.4 and 4.6 (the parser's regular
  expressions are missing), ``strip thousands-separator commas before parsing
  numerically''. The commas are dropped, every one of them, then a leading currency sign,
  then the rest is read as a decimal numeral.
\<close>

definition parse_amount :: "string \<Rightarrow> rat option" where
  "parse_amount t = parse_decimal (strip_currency (strip_commas t))"

text \<open>
  Modelled from the spec: the ``currency-shaped decimal token'' of section 4.4 (the
  parser's price pattern is missing). A token is currency-shaped when it reads as an amount
  and carries a currency sign or a decimal point: \<open>$103\<close>, \<open>$50.00\<close>, \<open>6.98\<close> and
  \<open>1,060.0\<close> are, the item code \<open>9275\<close> and the count \<open>2\<close> are not.
\<close>

definition currency_shaped :: "string \<Rightarrow> bool" where
  "currency_shaped t \<longleftrightarrow>
     parse_amount t \<noteq> None \<and> (take 1 t = ''$'' \<or> CHR ''.'' \<in> set t)"

text \<open>
  Modelled from the spec: the price rule of section 4.4 (the parser's
  \<^verbatim>\<open>extract_price_and_quantity\<close> is missing), ``rightmost currency-shaped decimal token on
  the line''. It is the price rule of the example methods below.
\<close>

definition find_price :: "string \<Rightarrow> rat option" where
  "find_price s =
     (case filter currency_shaped (rev (tokens s)) of [] \<Rightarrow> None | t # _ \<Rightarrow> parse_amount t)"

subsection \<open>The sub-item fragment of the parser\<close>

text \<open>
  Of \<^verbatim>\<open>_parse_hierarchical_format\<close> the repository prints one fragment
  (COMPREHENSIVE\_OCR\_ENHANCEMENT\_SUMMARY.md, ``Lines 931-960''): the treatment of one
  indented line \<^verbatim>\<open>next_stripped\<close> under a parent whose price is \<^verbatim>\<open>price\<close>. The three
  methods it calls are not printed; they are parameters. \<^verbatim>\<open>extract_price_and_quantity\<close>
  returns the triple (quantity, price, raw name).
\<close>

record parser_methods =
  extract_price_and_quantity :: "string \<Rightarrow> rat \<times> rat option \<times> string"
  clean_item_name :: "string \<Rightarrow> string"
  clean_sub_item_name :: "string \<Rightarrow> string"

text \<open>
  \<^verbatim>\<open>bool(re.search(r'\$?\d+\.\d{2}', next_stripped))\<close>: somewhere in the line stands a
  digit, a point and two digits (the optional currency sign and further leading digits do not
  change whether a match exists; among the characters 0 to 255, \<^verbatim>\<open>\d\<close> matches the ten
  ASCII digits).
\<close>

fun sub_has_price :: "string \<Rightarrow> bool" where
  "sub_has_price (a # b # c # d # rest) =
     ((is_digit a \<and> b = CHR ''.'' \<and> is_digit c \<and> is_digit d) \<or> sub_has_price (b # c # d # rest))"
| "sub_has_price rest = False"

text \<open>
  The fragment: the name and the price of the sub-item. With a price of its own on the line
  (\<open>sub_has_price\<close>), name and price come from \<^verbatim>\<open>extract_price_and_quantity\<close> of that line;
  otherwise the price is the parent's.
\<close>

definition sub_item_name_and_price ::
  "parser_methods \<Rightarrow> rat option \<Rightarrow> string \<Rightarrow> string \<times> rat option" where
  "sub_item_name_and_price self price next_stripped =
     (if sub_has_price next_stripped
      then (case extract_price_and_quantity self next_stripped of
              (sub_quantity, sub_price, sub_item_name_raw) \<Rightarrow>
                (clean_item_name self sub_item_name_raw, sub_price))
      else (clean_sub_item_name self next_stripped, price))"

text \<open>
  Modelled from the spec: \<^verbatim>\<open>next_stripped\<close>, the line without the whitespace at its two ends
  (the assignment is not printed; Python's \<^verbatim>\<open>str.strip()\<close>).
\<close>

definition strip :: "string \<Rightarrow> string" where
  "strip s =
     rev (dropWhile (\<lambda>c. is_space (of_char c)) (rev (dropWhile (\<lambda>c. is_space (of_char c)) s)))"

subsection \<open>Data model (section 3)\<close>

text \<open>
  Modelled from the spec: \<open>ReceiptLine {rawText, indentLevel, hasPrice, lineNumber}\<close>,
  ``derived once from the winning text'' (the parser's line records are missing). A line is
  indented when it ``starts with spaces/tabs''; the indent level is their number. Whether
  an indented line has a price of its own is the test that the printed fragment makes on
  it, \<open>sub_has_price\<close> of the stripped line; a line without indentation has a price when
  \<^verbatim>\<open>extract_price_and_quantity\<close> finds one on it.
\<close>

record receipt_line =
  rawText :: string
  indentLevel :: nat
  hasPrice :: bool
  lineNumber :: nat

definition mk_line :: "parser_methods \<Rightarrow> nat \<Rightarrow> string \<Rightarrow> receipt_line" where
  "mk_line self n s =
     \<lparr>rawText = s, indentLevel = length (takeWhile is_blank s),
      hasPrice = (if length (takeWhile is_blank s) > 0 then sub_has_price (strip s)
                  else fst (snd (extract_price_and_quantity self (strip s))) \<noteq> None),
      lineNumber = n\<rparr>"

text \<open>
  Modelled from the spec: the lines of a text, numbered from the given number on (the
  parser's line loop is missing).
\<close>

fun number_lines :: "parser_methods \<Rightarrow> nat \<Rightarrow> string list \<Rightarrow> receipt_line list" where
  "number_lines self n [] = []"
| "number_lines self n (s # ss) = mk_line self n s # number_lines self (Suc n) ss"

text \<open>
  Modelled from the spec: \<open>ParsedItem {name, quantity, unit, price, sourceLineRange,
  warnings}\<close> with \<open>unit: enum{count,kg,g,lb,oz,l,ml}\<close> (the parser's item records are
  missing); a missing price is \<open>None\<close>.
\<close>

datatype item_unit = Count | Kg | Gram | Lb | Oz | Litre | Ml

record parsed_item =
  name :: string
  quantity :: rat
  unit :: item_unit
  price :: "rat option"
  sourceLineRange :: "nat \<times> nat"
  warnings :: "string list"

subsection \<open>Line classifier (section 4.3)\<close>

text \<open>
  Modelled from the spec: the five roles of section 4.3, and the vocabulary tables of the
  classifier. The tables of the classifier are not in the specification (``a blacklist of
  financial/tax/payment/promotional vocabulary (exact terms and regex patterns)'', ``a term
  that is also a plausible item name''): they are parameters. \<open>blacklisted\<close> decides whether
  a line matches the blacklist, \<open>plausible_item\<close> whether a term is a plausible item name.
\<close>

datatype role = Noise | GroupHeader | StandaloneItem | SubItemOwnPrice | SubItemInherited

record vocabulary =
  blacklisted :: "string \<Rightarrow> bool"
  plausible_item :: "string \<Rightarrow> bool"

definition non_numeric_tokens :: "string \<Rightarrow> string list" where
  "non_numeric_tokens s = filter (\<lambda>t. parse_amount t = None) (tokens s)"

text \<open>
  Modelled from the spec: the exception of the Noise rule (the parser's
  \<^verbatim>\<open>is_blacklisted\<close> is missing), ``the line's only non-numeric content is a term that is
  also a plausible item name with nothing else present''.
\<close>

definition bare_item :: "vocabulary \<Rightarrow> string \<Rightarrow> bool" where
  "bare_item V s = (case non_numeric_tokens s of [t] \<Rightarrow> plausible_item V t | _ \<Rightarrow> False)"

definition is_noise :: "vocabulary \<Rightarrow> receipt_line \<Rightarrow> bool" where
  "is_noise V l \<longleftrightarrow> blacklisted V (rawText l) \<and> \<not> bare_item V (rawText l)"

text \<open>
  Modelled from the spec: the Line Classifier of section 4.3 (the parser's
  \<^verbatim>\<open>_parse_hierarchical_format\<close> is missing but for one fragment). One role per line, from
  the line and the line after it (\<open>None\<close> at the end of the text). Noise is decided first:
  the Totals Extractor reads its totals from Noise lines, which carry a price and no
  indentation. A line that fits no role (no indentation, no price, next line not indented)
  is of uncertain role, which section 7 defaults to Noise.
\<close>

definition classify :: "vocabulary \<Rightarrow> receipt_line \<Rightarrow> receipt_line option \<Rightarrow> role" where
  "classify V l nxt =
     (if is_noise V l then Noise
      else if indentLevel l = 0
      then (if hasPrice l then StandaloneItem
            else if (case nxt of None \<Rightarrow> False | Some n \<Rightarrow> indentLevel n > 0) then GroupHeader
            else Noise)
      else if hasPrice l then SubItemOwnPrice
      else SubItemInherited)"

text \<open>
  Modelled from the spec: ``per line, in document order, assign one role'' (the parser's
  line loop is missing); each line is classified with the line after it.
\<close>

fun classify_lines :: "vocabulary \<Rightarrow> receipt_line list \<Rightarrow> (receipt_line \<times> role) list" where
  "classify_lines V [] = []"
| "classify_lines V (l # ls) =
     (l, classify V l (case ls of [] \<Rightarrow> None | n # _ \<Rightarrow> Some n)) # classify_lines V ls"

subsection \<open>Item extractor (section 4.4)\<close>

text \<open>
  Modelled from the spec: what the quantity rules of section 4.4 give where the printed
  code does not say (the rules themselves are missing, so they are a parameter):
  \<open>quantity_of\<close> gives the quantity and the unit of a line. The printed fragment takes the
  quantity of a line with a price from \<^verbatim>\<open>extract_price_and_quantity\<close>, which returns no
  unit, and sets no quantity for a sub-item that inherits its price.
\<close>

record item_rules =
  quantity_of :: "string \<Rightarrow> rat \<times> item_unit"

text \<open>
  Modelled from the spec: the item of a line without indentation that has a price (the
  parser's item construction is missing): quantity, price and raw name from
  \<^verbatim>\<open>extract_price_and_quantity\<close> of the stripped line, the name cleaned. A missing price
  keeps the item and flags it (\<open>PriceParseFailure\<close>, section 7).
\<close>

definition mk_item :: "parser_methods \<Rightarrow> item_rules \<Rightarrow> receipt_line \<Rightarrow> parsed_item" where
  "mk_item self R l =
     (case extract_price_and_quantity self (strip (rawText l)) of
        (item_quantity, item_price, item_name_raw) \<Rightarrow>
          \<lparr>name = clean_item_name self item_name_raw, quantity = item_quantity,
           unit = snd (quantity_of R (strip (rawText l))), price = item_price,
           sourceLineRange = (lineNumber l, lineNumber l),
           warnings = (if item_price = None then [''PriceParseFailure''] else [])\<rparr>)"

text \<open>
  Modelled from the spec: the item of an indented line under a parent whose price is
  \<open>parent_price\<close> (the parser's item construction is missing). Name and price are those of
  the printed fragment, run on the stripped line; the quantity is the \<^verbatim>\<open>sub_quantity\<close> of
  the fragment where it sets one.
\<close>

definition mk_sub_item ::
  "parser_methods \<Rightarrow> item_rules \<Rightarrow> rat option \<Rightarrow> receipt_line \<Rightarrow> parsed_item" where
  "mk_sub_item self R parent_price l =
     (let next_stripped = strip (rawText l)
      in case sub_item_name_and_price self parent_price next_stripped of
           (item_name, sub_price) \<Rightarrow>
             \<lparr>name = item_name,
              quantity = (if sub_has_price next_stripped
                          then fst (extract_price_and_quantity self next_stripped)
                          else fst (quantity_of R next_stripped)),
              unit = snd (quantity_of R next_stripped), price = sub_price,
              sourceLineRange = (lineNumber l, lineNumber l),
              warnings = (if sub_price = None then [''PriceParseFailure''] else [])\<rparr>)"

text \<open>
  Modelled from the spec: the inherited price (the parser's parent tracking is missing),
  ``from the nearest ancestor StandaloneItem/GroupHeader/SubItemOwnPrice line above them at
  a lower indent level''; the price of that line is the one
  \<^verbatim>\<open>extract_price_and_quantity\<close> finds on it. \<open>prev\<close> holds the lines above, nearest first.
\<close>

fun ancestor_price ::
  "parser_methods \<Rightarrow> (receipt_line \<times> role) list \<Rightarrow> nat \<Rightarrow> rat option" where
  "ancestor_price self [] k = None"
| "ancestor_price self ((a, r) # prev) k =
     (if (r = StandaloneItem \<or> r = GroupHeader \<or> r = SubItemOwnPrice) \<and> indentLevel a < k
      then fst (snd (extract_price_and_quantity self (strip (rawText a))))
      else ancestor_price self prev k)"

text \<open>
  Modelled from the spec: the items of a classified text, in document order (the loop of
  \<^verbatim>\<open>_parse_hierarchical_format\<close> is missing). Noise and group headers give no item; a
  line without indentation that has a price gives its item; every indented line goes
  through the printed fragment, with the price of its ancestor as the parent's price.
  Continuation merging, which the specification makes opt-in per format, is off.
\<close>

fun items_from ::
  "parser_methods \<Rightarrow> item_rules \<Rightarrow> (receipt_line \<times> role) list \<Rightarrow>
   (receipt_line \<times> role) list \<Rightarrow> parsed_item list" where
  "items_from self R prev [] = []"
| "items_from self R prev ((l, r) # rest) =
     (case r of
        Noise \<Rightarrow> []
      | GroupHeader \<Rightarrow> []
      | StandaloneItem \<Rightarrow> [mk_item self R l]
      | SubItemOwnPrice \<Rightarrow> [mk_sub_item self R (ancestor_price self prev (indentLevel l)) l]
      | SubItemInherited \<Rightarrow> [mk_sub_item self R (ancestor_price self prev (indentLevel l)) l])
     @ items_from self R ((l, r) # prev) rest"

text \<open>
  Modelled from the spec: the items of a text, from its lines numbered from 1 (the
  parser's entry point is missing).
\<close>

definition parse_items ::
  "vocabulary \<Rightarrow> parser_methods \<Rightarrow> item_rules \<Rightarrow> string list \<Rightarrow> parsed_item list" where
  "parse_items V self R ls = items_from self R [] (classify_lines V (number_lines self 1 ls))"

subsection \<open>Totals extractor (section 4.6)\<close>

text \<open>
  Modelled from the spec: letter case is ignored in keywords (the parser's patterns and
  their flags are missing); ASCII lower case.
\<close>

definition lower :: "char \<Rightarrow> char" where
  "lower c =
     (case map_of (zip ''ABCDEFGHIJKLMNOPQRSTUVWXYZ'' ''abcdefghijklmnopqrstuvwxyz'') c of
        None \<Rightarrow> c | Some d \<Rightarrow> d)"

text \<open>
  Modelled from the spec: keyword search in a line (the parser's patterns are missing).
  \<open>contains k s\<close>: the keyword \<open>k\<close> occurs in \<open>s\<close> as a run of consecutive characters.
\<close>

fun starts_with :: "string \<Rightarrow> string \<Rightarrow> bool" where
  "starts_with [] s = True"
| "starts_with (k # ks) [] = False"
| "starts_with (k # ks) (c # cs) = (k = c \<and> starts_with ks cs)"

fun contains :: "string \<Rightarrow> string \<Rightarrow> bool" where
  "contains k [] = (k = [])"
| "contains k (c # cs) = (starts_with k (c # cs) \<or> contains k cs)"

text \<open>
  Modelled from the spec: the keyword of a scanned line (the parser's keyword patterns are
  missing), ``keyword priority: exact
  "total"/"grand total" (not prefixed by "sub") > "subtotal" > "balance due"'', with the
  invariant of section 3, ``"total" extraction must not be satisfied by a line containing
  "subtotal"''. The first keyword that matches names the line; letter case is ignored.
\<close>

datatype keyword = KwTotal | KwSubtotal | KwBalanceDue

definition line_keyword :: "string \<Rightarrow> keyword option" where
  "line_keyword s =
     (let t = map lower s
      in if contains ''total'' t \<and> \<not> contains ''subtotal'' t then Some KwTotal
         else if contains ''subtotal'' t then Some KwSubtotal
         else if contains ''balance due'' t then Some KwBalanceDue
         else None)"

text \<open>
  Modelled from the spec: ``parse the matched numeric token after stripping
  thousands-separator commas'' (the parser's total pattern is missing); the numeric token
  of a line is its rightmost token that reads as an amount.
\<close>

definition find_amount :: "string \<Rightarrow> rat option" where
  "find_amount s =
     (case filter (\<lambda>t. parse_amount t \<noteq> None) (rev (tokens s)) of
        [] \<Rightarrow> None | t # _ \<Rightarrow> parse_amount t)"

text \<open>
  Modelled from the spec: the amounts of the scanned lines of one keyword, in document
  order (the parser's scan is missing); a line without a numeric token gives none.
\<close>

fun amounts_of :: "keyword \<Rightarrow> string list \<Rightarrow> rat list" where
  "amounts_of k [] = []"
| "amounts_of k (l # ls) =
     (if line_keyword l = Some k
      then (case find_amount l of None \<Rightarrow> [] | Some v \<Rightarrow> [v])
      else []) @ amounts_of k ls"

text \<open>
  Modelled from the spec: the Totals Extractor (the parser's totals extraction is missing)
  over the lines it scans (the Noise lines and the trailing lines), ``if multiple
  qualifying "total" lines exist, the last in document order wins''. The total is read from
  the total lines and, when none of them carries an amount, from the balance-due lines; the
  subtotal from the subtotal lines. The fields are the \<open>total\<close> and \<open>subtotal\<close> of the
  Receipt.
\<close>

definition last_option :: "'a list \<Rightarrow> 'a option" where
  "last_option xs = (if xs = [] then None else Some (last xs))"

record totals =
  receipt_total :: "rat option"
  receipt_subtotal :: "rat option"

definition extract_totals :: "string list \<Rightarrow> totals" where
  "extract_totals ls =
     \<lparr>receipt_total = (case last_option (amounts_of KwTotal ls) of
                 Some v \<Rightarrow> Some v
               | None \<Rightarrow> last_option (amounts_of KwBalanceDue ls)),
      receipt_subtotal = last_option (amounts_of KwSubtotal ls)\<rparr>"

section \<open>Example inputs\<close>

text \<open>
  OCR results and services, a vocabulary with terms of the documented blacklist, and plain
  parser methods and item rules, on which the theorems below are run. The plain methods
  take the price of a line by the price rule of the specification and clean nothing.
\<close>

definition low_ocrspace :: ocr_result where
  "low_ocrspace = \<lparr>success = True, result_text = Some (py ''Tea 187''), confidence = Some 55,
     ocr_engine = ''ocrspace'', hybrid_mode = None, comparison_score = None\<rparr>"

definition good_tesseract :: ocr_result where
  "good_tesseract = \<lparr>success = True, result_text = Some (py ''Pizza 103 Cookie 12 Tea 187''),
     confidence = Some 60, ocr_engine = ''tesseract'', hybrid_mode = None, comparison_score = None\<rparr>"

definition short_tesseract :: ocr_result where
  "short_tesseract = \<lparr>success = True, result_text = Some (py ''1 2 3 4''), confidence = Some 58,
     ocr_engine = ''tesseract'', hybrid_mode = None, comparison_score = None\<rparr>"

definition tie_tesseract :: ocr_result where
  "tie_tesseract = \<lparr>success = True, result_text = Some (py ''Pizza 10 Tea 1870''), confidence = Some 52,
     ocr_engine = ''tesseract'', hybrid_mode = None, comparison_score = None\<rparr>"

definition high_ocrspace :: ocr_result where
  "high_ocrspace = \<lparr>success = True, result_text = Some (py ''Tea''), confidence = Some 70,
     ocr_engine = ''ocrspace'', hybrid_mode = None, comparison_score = None\<rparr>"

definition failed_ocrspace :: ocr_result where
  "failed_ocrspace = \<lparr>success = False, result_text = None, confidence = None,
     ocr_engine = ''ocrspace'', hybrid_mode = None, comparison_score = None\<rparr>"

definition failed_tesseract :: ocr_result where
  "failed_tesseract = \<lparr>success = False, result_text = None, confidence = None,
     ocr_engine = ''tesseract'', hybrid_mode = None, comparison_score = None\<rparr>"

definition manual_extraction :: ocr_result where
  "manual_extraction = \<lparr>success = False, result_text = Some [], confidence = Some 0,
     ocr_engine = ''manual'', hybrid_mode = None, comparison_score = None\<rparr>"

definition service_of :: "ocr_result \<Rightarrow> ocr_result \<Rightarrow> unit ocr_service" where
  "service_of p s =
     \<lparr>try_ocrspace_with_fallback = (\<lambda>_. p), try_tesseract_ocr = (\<lambda>_. s),
      fallback_text_extraction = (\<lambda>_. manual_extraction)\<rparr>"

definition doc_vocabulary :: vocabulary where
  "doc_vocabulary =
     \<lparr>blacklisted = (\<lambda>s. contains ''total'' (map lower s) \<or> contains ''buy one get one'' (map lower s)
                          \<or> contains ''buy one, get one'' (map lower s)
                          \<or> contains ''special'' (map lower s)),
      plausible_item = (\<lambda>t. map lower t = ''special'')\<rparr>"

definition plain_methods :: parser_methods where
  "plain_methods =
     \<lparr>extract_price_and_quantity = (\<lambda>s. (1, find_price s, s)),
      clean_item_name = (\<lambda>s. s), clean_sub_item_name = (\<lambda>s. s)\<rparr>"

definition plain_rules :: item_rules where
  "plain_rules = \<lparr>quantity_of = (\<lambda>s. (1, Count))\<rparr>"

section \<open>Properties of the OCR orchestrator\<close>

subsection \<open>Rounding to a double\<close>

text \<open>
  The spacing of the doubles around \<open>x\<close> is \<open>2 ^ q\<close> when \<open>x\<close> lies in the binade of \<open>q\<close>, and
  \<open>to_double x\<close> is the multiple \<open>n * 2 ^ q\<close> nearest to \<open>x\<close>. With \<open>q\<close> and \<open>n\<close> given,
  these rules evaluate a rounding by rational arithmetic alone.
\<close>

lemma ulp_candidates:
  "set (-1074 # filter (\<lambda>q. 2 powi (q + 52) \<le> \<bar>x\<bar>) [-1074..971]) =
     insert (-1074) {q. -1074 \<le> q \<and> q \<le> 971 \<and> 2 powi (q + 52) \<le> \<bar>x\<bar>}"
  by (auto simp only: list.set set_filter set_upto atLeastAtMost_iff)

lemma ulp_exponent_eqI:
  assumes "-1074 \<le> q" "q \<le> 971" "2 powi (q + 52) \<le> \<bar>x\<bar>" "\<bar>x\<bar> < 2 powi (q + 53)"
  shows "ulp_exponent x = q"
  unfolding ulp_exponent_def ulp_candidates
proof (rule Max_eqI)
  have "{q. -1074 \<le> q \<and> q \<le> 971 \<and> 2 powi (q + 52) \<le> \<bar>x\<bar>} \<subseteq> {-1074..971}"
    by auto
  then have "finite {q. -1074 \<le> q \<and> q \<le> 971 \<and> 2 powi (q + 52) \<le> \<bar>x\<bar>}"
    by (rule finite_subset) (rule finite_atLeastAtMost_int)
  then show "finite (insert (-1074) {q. -1074 \<le> q \<and> q \<le> 971 \<and> 2 powi (q + 52) \<le> \<bar>x\<bar>})"
    by (rule finite.insertI)
  show "q \<in> insert (-1074) {q. -1074 \<le> q \<and> q \<le> 971 \<and> 2 powi (q + 52) \<le> \<bar>x\<bar>}"
    using assms by blast
  fix y assume "y \<in> insert (-1074) {q. -1074 \<le> q \<and> q \<le> 971 \<and> 2 powi (q + 52) \<le> \<bar>x\<bar>}"
  then consider "y = -1074" | "2 powi (y + 52) \<le> \<bar>x\<bar>"
    by blast
  then show "y \<le> q"
  proof cases
    case 1
    then show ?thesis using assms(1) by (simp only:)
  next
    case 2
    from 2 assms(4) have less: "(2::rat) powi (y + 52) < 2 powi (q + 53)"
      by (rule le_less_trans)
    have "\<not> q + 53 \<le> y + 52"
    proof
      assume "q + 53 \<le> y + 52"
      then have "(2::rat) powi (q + 53) \<le> 2 powi (y + 52)"
        by (intro power_int_increasing) auto
      with less show False
        by linarith
    qed
    then show ?thesis by linarith
  qed
qed

lemma round_half_even_near:
  assumes "\<bar>r - of_int n\<bar> < 1 / 2"
  shows "round_half_even r = n"
proof (cases "of_int n \<le> r")
  case True
  with assms have "\<lfloor>r\<rfloor> = n"
    by (intro floor_unique) auto
  with assms True show ?thesis
    by (simp add: round_half_even_def Let_def)
next
  case False
  with assms have "\<lfloor>r\<rfloor> = n - 1"
    by (intro floor_unique) auto
  with assms False show ?thesis
    by (auto simp: round_half_even_def Let_def)
qed

lemma round_half_even_tie:
  assumes "\<bar>r - of_int n\<bar> = 1 / 2" "even n"
  shows "round_half_even r = n"
proof (cases "of_int n \<le> r")
  case True
  with assms have "\<lfloor>r\<rfloor> = n"
    by (intro floor_unique) auto
  with assms True show ?thesis
    by (simp add: round_half_even_def Let_def)
next
  case False
  with assms have "\<lfloor>r\<rfloor> = n - 1"
    by (intro floor_unique) auto
  with assms False show ?thesis
    by (auto simp: round_half_even_def Let_def)
qed

lemma to_double_near:
  assumes "-1074 \<le> q" "q \<le> 971" "2 powi (q + 52) \<le> \<bar>x\<bar>" "\<bar>x\<bar> < 2 powi (q + 53)"
    and "\<bar>x / 2 powi q - of_int n\<bar> < 1 / 2"
  shows "to_double x = of_int n * 2 powi q"
  using ulp_exponent_eqI [OF assms(1-4)] round_half_even_near [OF assms(5)]
  by (simp add: to_double_def)

lemma to_double_tie:
  assumes "-1074 \<le> q" "q \<le> 971" "2 powi (q + 52) \<le> \<bar>x\<bar>" "\<bar>x\<bar> < 2 powi (q + 53)"
    and "\<bar>x / 2 powi q - of_int n\<bar> = 1 / 2" "even n"
  shows "to_double x = of_int n * 2 powi q"
  using ulp_exponent_eqI [OF assms(1-4)] round_half_even_tie [OF assms(5,6)]
  by (simp add: to_double_def)

lemma to_double_zero: "to_double 0 = 0"
  by (simp add: to_double_def round_half_even_def)

text \<open>The rounding error is at most half the spacing.\<close>

lemma round_half_even_nearest: "\<bar>of_int (round_half_even r) - r\<bar> \<le> 1 / 2"
proof -
  have "of_int \<lfloor>r\<rfloor> \<le> r" "r < of_int \<lfloor>r\<rfloor> + 1"
    by linarith+
  then show ?thesis
    by (auto simp: round_half_even_def Let_def abs_le_iff)
qed

lemma to_double_nearest: "\<bar>to_double x - x\<bar> \<le> 2 powi ulp_exponent x / 2"
proof -
  define q where "q = ulp_exponent x"
  have pos: "(0::rat) < 2 powi q"
    by simp
  have "to_double x - x = (of_int (round_half_even (x / 2 powi q)) - x / 2 powi q) * 2 powi q"
    using pos by (simp add: to_double_def q_def algebra_simps)
  then have "\<bar>to_double x - x\<bar> = \<bar>of_int (round_half_even (x / 2 powi q)) - x / 2 powi q\<bar> * 2 powi q"
    using pos by (simp add: abs_mult)
  also have "\<dots> \<le> 1 / 2 * 2 powi q"
    using round_half_even_nearest [of "x / 2 powi q"] pos by (intro mult_right_mono) auto
  finally show ?thesis
    by (simp add: q_def)
qed

lemma float_mul_commute: "float_mul x y = float_mul y x"
  by (simp add: float_mul_def mult.commute)

lemma literal_040: "to_double (40 / 100) = 3602879701896397 / 9007199254740992"
  using to_double_near [of "-54" "40 / 100" 7205759403792794] by simp

lemma literal_030: "to_double (30 / 100) = 5404319552844595 / 18014398509481984"
  using to_double_near [of "-54" "30 / 100" 5404319552844595] by simp

subsection \<open>The comparison\<close>

text \<open>
  The two scores that \<open>compare_ocr_results\<close> computes in line are the formula of the
  specification, applied to each result in the arithmetic of the code.
\<close>

lemma compare_ocr_results_eq:
  "compare_ocr_results p s =
     (if candidate_score p \<ge> candidate_score s then tag_hybrid p else tag_hybrid s)"
  unfolding compare_ocr_results_def candidate_score_def tag_hybrid_def word_count_def
    text_or_empty_def confidence_or_zero_def Let_def
  by (simp only: float_mul_commute [of "to_double (40 / 100)"]
      float_mul_commute [of "to_double (30 / 100)"])

text \<open>
  The scores of three results: \<open>23.62\<close> for the text \<open>Tea 187\<close> at confidence 55 and for
  \<open>Pizza 10 Tea 1870\<close> at confidence 52, and \<open>23.620000000000005\<close> for \<open>1 2 3 4\<close> at
  confidence 58, each the exact value of the double.
\<close>

lemma low_ocrspace_score: "candidate_score low_ocrspace = 6648438949905695 / 281474976710656"
proof -
  have len: "length (text_or_empty low_ocrspace) = 7"
    by (simp add: text_or_empty_def low_ocrspace_def py_def)
  have wc: "word_count (text_or_empty low_ocrspace) = 2"
    by (simp add: text_or_empty_def low_ocrspace_def py_def word_count_def split_def is_space_def)
  have conf: "confidence_or_zero low_ocrspace = 55"
    by (simp add: confidence_or_zero_def low_ocrspace_def)
  have e1: "to_double 55 = 55"
    using to_double_near [of "-47" "55" 7740561859543040] by simp
  have e2: "float_mul (3602879701896397 / 9007199254740992) 55 = 22"
    unfolding float_mul_def using to_double_near [of "-48" "(3602879701896397 / 9007199254740992) * 55" 6192449487634432] by simp
  have e3: "int_true_div 7 500 = 8070450532247929 / 576460752303423488"
    unfolding int_true_div_def using to_double_near [of "-59" "7 / 500" 8070450532247929] by simp
  have e4: "float_mul (8070450532247929 / 576460752303423488) 100 = 6305039478318695 / 4503599627370496"
    unfolding float_mul_def using to_double_near [of "-52" "(8070450532247929 / 576460752303423488) * 100" 6305039478318695] by simp
  have e5: "min 100 (6305039478318695 / 4503599627370496::rat) = 6305039478318695 / 4503599627370496"
    by simp
  have e6: "float_mul (5404319552844595 / 18014398509481984) (6305039478318695 / 4503599627370496) = 3783023686991217 / 9007199254740992"
    unfolding float_mul_def using to_double_near [of "-54" "(5404319552844595 / 18014398509481984) * (6305039478318695 / 4503599627370496)" 7566047373982434] by simp
  have e7: "int_true_div 2 50 = 5764607523034235 / 144115188075855872"
    unfolding int_true_div_def using to_double_near [of "-57" "2 / 50" 5764607523034235] by simp
  have e8: "float_mul (5764607523034235 / 144115188075855872) 100 = 4"
    unfolding float_mul_def using to_double_near [of "-50" "(5764607523034235 / 144115188075855872) * 100" 4503599627370496] by simp
  have e9: "min 100 (4::rat) = 4"
    by simp
  have e10: "float_mul (5404319552844595 / 18014398509481984) 4 = 5404319552844595 / 4503599627370496"
    unfolding float_mul_def using to_double_near [of "-52" "(5404319552844595 / 18014398509481984) * 4" 5404319552844595] by simp
  have e11: "float_add 22 (3783023686991217 / 9007199254740992) = 1577667244463227 / 70368744177664"
    unfolding float_add_def using to_double_near [of "-48" "22 + (3783023686991217 / 9007199254740992)" 6310668977852908] by simp
  have e12: "float_add (1577667244463227 / 70368744177664) (5404319552844595 / 4503599627370496) = 6648438949905695 / 281474976710656"
    unfolding float_add_def using to_double_near [of "-48" "(1577667244463227 / 70368744177664) + (5404319552844595 / 4503599627370496)" 6648438949905695] by simp
  show ?thesis
    by (simp only: candidate_score_def len wc conf literal_040 literal_030 e1 e2 e3 e4 e5 e6 e7 e8 e9 e10 e11 e12)
qed

lemma short_tesseract_score: "candidate_score short_tesseract = 207763717184553 / 8796093022208"
proof -
  have len: "length (text_or_empty short_tesseract) = 7"
    by (simp add: text_or_empty_def short_tesseract_def py_def)
  have wc: "word_count (text_or_empty short_tesseract) = 0"
    by (simp add: text_or_empty_def short_tesseract_def py_def word_count_def split_def is_space_def)
  have conf: "confidence_or_zero short_tesseract = 58"
    by (simp add: confidence_or_zero_def short_tesseract_def)
  have e1: "to_double 58 = 58"
    using to_double_near [of "-47" "58" 8162774324609024] by simp
  have e2: "float_mul (3602879701896397 / 9007199254740992) 58 = 1632554864921805 / 70368744177664"
    unfolding float_mul_def using to_double_near [of "-48" "(3602879701896397 / 9007199254740992) * 58" 6530219459687220] by simp
  have e3: "int_true_div 7 500 = 8070450532247929 / 576460752303423488"
    unfolding int_true_div_def using to_double_near [of "-59" "7 / 500" 8070450532247929] by simp
  have e4: "float_mul (8070450532247929 / 576460752303423488) 100 = 6305039478318695 / 4503599627370496"
    unfolding float_mul_def using to_double_near [of "-52" "(8070450532247929 / 576460752303423488) * 100" 6305039478318695] by simp
  have e5: "min 100 (6305039478318695 / 4503599627370496::rat) = 6305039478318695 / 4503599627370496"
    by simp
  have e6: "float_mul (5404319552844595 / 18014398509481984) (6305039478318695 / 4503599627370496) = 3783023686991217 / 9007199254740992"
    unfolding float_mul_def using to_double_near [of "-54" "(5404319552844595 / 18014398509481984) * (6305039478318695 / 4503599627370496)" 7566047373982434] by simp
  have e7: "int_true_div 0 50 = 0"
    by (simp add: int_true_div_def to_double_zero)
  have e8: "float_mul 0 100 = 0"
    unfolding float_mul_def by (simp add: to_double_zero)
  have e9: "min 100 (0::rat) = 0"
    by simp
  have e10: "float_mul (5404319552844595 / 18014398509481984) 0 = 0"
    unfolding float_mul_def by (simp add: to_double_zero)
  have e11: "float_add (1632554864921805 / 70368744177664) (3783023686991217 / 9007199254740992) = 207763717184553 / 8796093022208"
    unfolding float_add_def using to_double_near [of "-48" "(1632554864921805 / 70368744177664) + (3783023686991217 / 9007199254740992)" 6648438949905696] by simp
  have e12: "float_add (207763717184553 / 8796093022208) 0 = 207763717184553 / 8796093022208"
    unfolding float_add_def using to_double_near [of "-48" "(207763717184553 / 8796093022208) + 0" 6648438949905696] by simp
  show ?thesis
    by (simp only: candidate_score_def len wc conf literal_040 literal_030 e1 e2 e3 e4 e5 e6 e7 e8 e9 e10 e11 e12)
qed

lemma tie_tesseract_score: "candidate_score tie_tesseract = 6648438949905695 / 281474976710656"
proof -
  have len: "length (text_or_empty tie_tesseract) = 17"
    by (simp add: text_or_empty_def tie_tesseract_def py_def)
  have wc: "word_count (text_or_empty tie_tesseract) = 3"
    by (simp add: text_or_empty_def tie_tesseract_def py_def word_count_def split_def is_space_def)
  have conf: "confidence_or_zero tie_tesseract = 52"
    by (simp add: confidence_or_zero_def tie_tesseract_def)
  have e1: "to_double 52 = 52"
    using to_double_near [of "-47" "52" 7318349394477056] by simp
  have e2: "float_mul (3602879701896397 / 9007199254740992) 52 = 5854679515581645 / 281474976710656"
    unfolding float_mul_def using to_double_near [of "-48" "(3602879701896397 / 9007199254740992) * 52" 5854679515581645] by simp
  have e3: "int_true_div 17 500 = 1224979098644775 / 36028797018963968"
    unfolding int_true_div_def using to_double_near [of "-57" "17 / 500" 4899916394579100] by simp
  have e4: "float_mul (1224979098644775 / 36028797018963968) 100 = 1914029841632461 / 562949953421312"
    unfolding float_mul_def using to_double_near [of "-51" "(1224979098644775 / 36028797018963968) * 100" 7656119366529844] by simp
  have e5: "min 100 (1914029841632461 / 562949953421312::rat) = 1914029841632461 / 562949953421312"
    by simp
  have e6: "float_mul (5404319552844595 / 18014398509481984) (1914029841632461 / 562949953421312) = 2296835809958953 / 2251799813685248"
    unfolding float_mul_def using to_double_near [of "-52" "(5404319552844595 / 18014398509481984) * (1914029841632461 / 562949953421312)" 4593671619917906] by simp
  have e7: "int_true_div 3 50 = 1080863910568919 / 18014398509481984"
    unfolding int_true_div_def using to_double_near [of "-57" "3 / 50" 8646911284551352] by simp
  have e8: "float_mul (1080863910568919 / 18014398509481984) 100 = 6"
    unfolding float_mul_def using to_double_near [of "-50" "(1080863910568919 / 18014398509481984) * 100" 6755399441055744] by simp
  have e9: "min 100 (6::rat) = 6"
    by simp
  have e10: "float_mul (5404319552844595 / 18014398509481984) 6 = 2026619832316723 / 1125899906842624"
    unfolding float_mul_def using to_double_tie [of "-52" "(5404319552844595 / 18014398509481984) * 6" 8106479329266892] by simp
  have e11: "float_add (5854679515581645 / 281474976710656) (2296835809958953 / 2251799813685248) = 3070891995913257 / 140737488355328"
    unfolding float_add_def using to_double_near [of "-48" "(5854679515581645 / 281474976710656) + (2296835809958953 / 2251799813685248)" 6141783991826514] by simp
  have e12: "float_add (3070891995913257 / 140737488355328) (2026619832316723 / 1125899906842624) = 6648438949905695 / 281474976710656"
    unfolding float_add_def using to_double_near [of "-48" "(3070891995913257 / 140737488355328) + (2026619832316723 / 1125899906842624)" 6648438949905695] by simp
  show ?thesis
    by (simp only: candidate_score_def len wc conf literal_040 literal_030 e1 e2 e3 e4 e5 e6 e7 e8 e9 e10 e11 e12)
qed

text \<open>
  Claim C1. In hybrid mode (the primary engine, OCR.space, succeeded with a confidence below
  the quality threshold 70, and the secondary engine, Tesseract, succeeded too) the
  orchestrator calls the comparison, which scores each candidate by
  \<open>0.40 * confidence + 0.30 * min(100, len(text) / 500 * 100) +
  0.30 * min(100, wordCount(text) / 50 * 100)\<close>, computed in floats, where \<open>wordCount\<close> counts
  the whitespace-separated tokens of more than two characters; it returns the candidate \<open>w\<close>
  whose score is the higher one (the maximum of the two), tagged \<open>hybrid_mode = True\<close> and
  carrying its score.
\<close>

theorem hybrid_mode_picks_higher_score:
  assumes "p = try_ocrspace_with_fallback self req" and "s = try_tesseract_ocr self req"
    and "success p" and "confidence p = Some c" and "c < 70" and "success s"
  shows "\<exists>w. try_multiple_ocr_methods self req =
           (Inr (w\<lparr>hybrid_mode := Some True, comparison_score := Some (candidate_score w)\<rparr>),
            [TryOcrSpace, TryTesseract, CompareOcrResults]) \<and>
         w = (if candidate_score p \<ge> candidate_score s then p else s) \<and>
         candidate_score w = max (candidate_score p) (candidate_score s) \<and>
         candidate_score w =
           float_add
             (float_add
                (float_mul (to_double (40 / 100))
                   (to_double (case confidence w of None \<Rightarrow> 0 | Some k \<Rightarrow> k)))
                (float_mul (to_double (30 / 100))
                   (min 100 (float_mul (int_true_div (length (text_or_empty w)) 500) 100))))
             (float_mul (to_double (30 / 100))
                (min 100 (float_mul
                   (int_true_div (length (filter (\<lambda>t. length t > 2) (split (text_or_empty w)))) 50)
                   100)))"
proof -
  define w where "w = (if candidate_score p \<ge> candidate_score s then p else s)"
  have ret: "try_multiple_ocr_methods self req =
          (Inr (compare_ocr_results p s), [TryOcrSpace, TryTesseract, CompareOcrResults])"
    using assms by (simp add: try_multiple_ocr_methods_def invoke_def Let_def QUALITY_THRESHOLD_def)
  have cmp: "compare_ocr_results p s =
          w\<lparr>hybrid_mode := Some True, comparison_score := Some (candidate_score w)\<rparr>"
    by (simp add: compare_ocr_results_eq tag_hybrid_def w_def)
  have best: "candidate_score w = max (candidate_score p) (candidate_score s)"
    by (simp add: w_def max_def)
  have formula: "candidate_score w =
           float_add
             (float_add
                (float_mul (to_double (40 / 100))
                   (to_double (case confidence w of None \<Rightarrow> 0 | Some k \<Rightarrow> k)))
                (float_mul (to_double (30 / 100))
                   (min 100 (float_mul (int_true_div (length (text_or_empty w)) 500) 100))))
             (float_mul (to_double (30 / 100))
                (min 100 (float_mul
                   (int_true_div (length (filter (\<lambda>t. length t > 2) (split (text_or_empty w)))) 50)
                   100)))"
    by (simp only: candidate_score_def confidence_or_zero_def word_count_def)
  show ?thesis
  proof (intro exI [of _ w] conjI)
    show "try_multiple_ocr_methods self req =
            (Inr (w\<lparr>hybrid_mode := Some True, comparison_score := Some (candidate_score w)\<rparr>),
             [TryOcrSpace, TryTesseract, CompareOcrResults])"
      by (simp only: ret cmp)
  qed (rule w_def best formula)+
qed

text \<open>
  The primary result \<open>Tea 187\<close> at confidence 55 scores \<open>23.62\<close>, the secondary result
  \<open>1 2 3 4\<close> at confidence 58 scores \<open>23.620000000000005\<close>: the secondary one is returned.
\<close>

theorem hybrid_mode_picks_higher_score_witness:
  "try_multiple_ocr_methods (service_of low_ocrspace short_tesseract) () =
     (Inr (short_tesseract\<lparr>hybrid_mode := Some True,
             comparison_score := Some (207763717184553 / 8796093022208)\<rparr>),
      [TryOcrSpace, TryTesseract, CompareOcrResults])"
proof -
  have "success low_ocrspace" "confidence low_ocrspace = Some 55" "success short_tesseract"
    by (simp_all add: low_ocrspace_def short_tesseract_def)
  then show ?thesis
    using hybrid_mode_picks_higher_score
      [of low_ocrspace "service_of low_ocrspace short_tesseract" "()" short_tesseract 55]
    by (simp add: service_of_def low_ocrspace_score short_tesseract_score)
qed

text \<open>
  Claim C2. When the primary engine succeeds with a confidence of at least 70, the
  orchestrator returns the primary engine's result as it is, and the only call it makes is
  the one to the primary engine: the secondary engine is not invoked.
\<close>

theorem primary_above_threshold_returned_unchanged:
  assumes "p = try_ocrspace_with_fallback self req"
    and "success p" and "confidence p = Some c" and "c \<ge> 70"
  shows "try_multiple_ocr_methods self req = (Inr p, [TryOcrSpace]) \<and>
         TryTesseract \<notin> set (snd (try_multiple_ocr_methods self req))"
  using assms
  by (simp add: try_multiple_ocr_methods_def invoke_def Let_def QUALITY_THRESHOLD_def)

theorem primary_above_threshold_returned_unchanged_witness:
  "try_multiple_ocr_methods (service_of high_ocrspace good_tesseract) () =
     (Inr high_ocrspace, [TryOcrSpace]) \<and>
   TryTesseract \<notin> set (snd (try_multiple_ocr_methods (service_of high_ocrspace good_tesseract) ()))"
proof -
  have "success high_ocrspace" "confidence high_ocrspace = Some 70"
    by (simp_all add: high_ocrspace_def)
  then show ?thesis
    using primary_above_threshold_returned_unchanged
      [of high_ocrspace "service_of high_ocrspace good_tesseract" "()" 70]
    by (simp add: service_of_def)
qed

text \<open>
  Claim C3, as amended. When the primary engine fails, the orchestrator calls the secondary
  engine and returns its result as it is, without the comparison. It never raises: on every
  input it returns a result, also when both engines fail (it then returns the secondary
  engine's failed result).
\<close>

theorem primary_failure_returns_secondary_never_raises:
  "(\<not> success (try_ocrspace_with_fallback self req) \<longrightarrow>
      try_multiple_ocr_methods self req =
        (Inr (try_tesseract_ocr self req), [TryOcrSpace, TryTesseract])) \<and>
   (\<forall>e. fst (try_multiple_ocr_methods self req) \<noteq> Inl e)"
  by (simp add: try_multiple_ocr_methods_def invoke_def Let_def)

theorem primary_failure_returns_secondary_never_raises_witness:
  "try_multiple_ocr_methods (service_of failed_ocrspace good_tesseract) () =
     (Inr good_tesseract, [TryOcrSpace, TryTesseract]) \<and>
   fst (try_multiple_ocr_methods (service_of failed_ocrspace good_tesseract) ()) \<noteq> Inl OcrUnavailable"
proof -
  have "\<not> success failed_ocrspace"
    by (simp add: failed_ocrspace_def)
  then show ?thesis
    using primary_failure_returns_secondary_never_raises
      [of "service_of failed_ocrspace good_tesseract" "()"]
    by (simp add: service_of_def)
qed

text \<open>
  Claim C3 as stated fails: with both engines failing, the orchestrator does not raise
  \<open>OcrUnavailable\<close>.
\<close>

theorem both_engines_fail_no_OcrUnavailable:
  "\<not> (fst (try_multiple_ocr_methods (service_of failed_ocrspace failed_tesseract) ()) = Inl OcrUnavailable
       \<longleftrightarrow> \<not> success (try_ocrspace_with_fallback (service_of failed_ocrspace failed_tesseract) ()) \<and>
           \<not> success (try_tesseract_ocr (service_of failed_ocrspace failed_tesseract) ()))"
  by (simp add: try_multiple_ocr_methods_def invoke_def service_of_def failed_ocrspace_def
      failed_tesseract_def Let_def)

text \<open>
  The earlier, priority-order version does not raise either: with both engines failing it
  returns the result of the manual extraction.
\<close>

lemma priority_order_never_raises:
  "(\<forall>e. fst (try_multiple_ocr_methods_priority self req) \<noteq> Inl e) \<and>
   (\<not> success (try_tesseract_ocr self req) \<and> \<not> success (try_ocrspace_with_fallback self req) \<longrightarrow>
      try_multiple_ocr_methods_priority self req =
        (Inr (fallback_text_extraction self req),
         [TryTesseract, TryOcrSpace, FallbackTextExtraction]))"
  by (simp add: try_multiple_ocr_methods_priority_def invoke_def Let_def)

text \<open>
  Claim C10. When the two scores, as the comparison computes them, are equal, it returns the
  primary engine's result (the test is \<open>\<ge>\<close>); in every comparison the result is one of
  the two inputs, the primary one exactly when its score is at least the secondary's, with
  \<open>hybrid_mode\<close> set to true and its score recorded.
\<close>

theorem equal_scores_return_primary:
  "(candidate_score p = candidate_score s \<longrightarrow>
      compare_ocr_results p s =
        p\<lparr>hybrid_mode := Some True, comparison_score := Some (candidate_score p)\<rparr>) \<and>
   compare_ocr_results p s =
     (if candidate_score p \<ge> candidate_score s
      then p\<lparr>hybrid_mode := Some True, comparison_score := Some (candidate_score p)\<rparr>
      else s\<lparr>hybrid_mode := Some True, comparison_score := Some (candidate_score s)\<rparr>) \<and>
   hybrid_mode (compare_ocr_results p s) = Some True"
  by (simp add: compare_ocr_results_eq tag_hybrid_def)

text \<open>
  The primary result \<open>Tea 187\<close> at confidence 55 and the secondary result
  \<open>Pizza 10 Tea 1870\<close> at confidence 52 both score \<open>23.62\<close>: the primary one is returned.
\<close>

theorem equal_scores_return_primary_witness:
  "candidate_score low_ocrspace = candidate_score tie_tesseract \<and>
   compare_ocr_results low_ocrspace tie_tesseract =
     low_ocrspace\<lparr>hybrid_mode := Some True,
       comparison_score := Some (6648438949905695 / 281474976710656)\<rparr>"
  using equal_scores_return_primary [of low_ocrspace tie_tesseract]
  by (simp add: low_ocrspace_score tie_tesseract_score)

section \<open>Properties of the receipt parsing core\<close>

subsection \<open>Example lines\<close>

lemma is_noise_mk_line: "is_noise V (mk_line self n s) \<longleftrightarrow> blacklisted V s \<and> \<not> bare_item V s"
  by (simp add: is_noise_def mk_line_def)

lemma indent_mk_line: "indentLevel (mk_line self n s) = length (takeWhile is_blank s)"
  by (simp add: mk_line_def)

lemma stripped_lines:
  "strip ''Buy One, Get One'' = ''Buy One, Get One''"
  "strip ''  2 Burritos     $6.98'' = ''2 Burritos     $6.98''"
  "strip ''  M Iced Coffee  $2.49'' = ''M Iced Coffee  $2.49''"
  "strip ''Pizza    $103'' = ''Pizza    $103''"
  "strip ''  Tea $3'' = ''Tea $3''"
  by (simp_all add: strip_def is_space_def)




lemma pizza_price: "find_price ''Pizza    $103'' = Some 103"
  by (simp add: is_blank_def find_price_def tokens_def currency_shaped_def
      parse_amount_def strip_currency_def strip_commas_def parse_decimal_def is_digit_def
      digits_val_def digit_val_def)


lemma sub_items_not_blacklisted:
  "\<not> blacklisted doc_vocabulary ''  2 Burritos     $6.98''"
  "\<not> blacklisted doc_vocabulary ''  M Iced Coffee  $2.49''"
  "\<not> blacklisted doc_vocabulary ''Pizza    $103''"
  "\<not> blacklisted doc_vocabulary ''  Tea $3''"
  by (simp_all add: doc_vocabulary_def lower_def)

text \<open>
  The test of the fragment on four stripped lines: a price needs a point and two decimals.
\<close>

lemma sub_has_price_examples:
  "sub_has_price ''2 Burritos     $6.98''" "sub_has_price ''M Iced Coffee  $2.49''"
  "\<not> sub_has_price ''Tea $3''" "sub_has_price ''0.778kg NET @ $5.99/kg''"
  by (simp_all add: is_digit_def)

subsection \<open>Hierarchical items\<close>


lemma mk_sub_item_inherits:
  assumes "\<not> sub_has_price (strip (rawText l))"
  shows "price (mk_sub_item self R parent_price l) = parent_price"
    and "name (mk_sub_item self R parent_price l) = clean_sub_item_name self (strip (rawText l))"
  using assms
  by (simp_all add: mk_sub_item_def sub_item_name_and_price_def Let_def)




text \<open>
  An indented line whose price has no decimals (\<open>Tea $3\<close>) fails the test of the fragment
  and inherits: under \<open>Pizza    $103\<close> its item has the price 103.
\<close>

lemma sub_item_without_decimals_inherits:
  "map price (parse_items doc_vocabulary plain_methods plain_rules [''Pizza    $103'', ''  Tea $3'']) =
     [Some 103, Some 103]"
proof -
  have lines: "number_lines plain_methods 1 [''Pizza    $103'', ''  Tea $3''] =
      [mk_line plain_methods 1 ''Pizza    $103'', mk_line plain_methods 2 ''  Tea $3'']"
    by (simp add: numeral_2_eq_2)
  have pizza: "mk_line plain_methods n ''Pizza    $103'' =
      \<lparr>rawText = ''Pizza    $103'', indentLevel = 0, hasPrice = True, lineNumber = n\<rparr>" for n
    by (simp add: mk_line_def is_blank_def stripped_lines plain_methods_def pizza_price)
  have tea: "mk_line plain_methods n ''  Tea $3'' =
      \<lparr>rawText = ''  Tea $3'', indentLevel = 2, hasPrice = False, lineNumber = n\<rparr>" for n
    by (simp add: mk_line_def is_blank_def stripped_lines sub_has_price_examples)
  have noise: "\<not> is_noise doc_vocabulary (mk_line plain_methods n ''Pizza    $103'')"
      "\<not> is_noise doc_vocabulary (mk_line plain_methods n ''  Tea $3'')" for n
    by (simp_all only: is_noise_mk_line sub_items_not_blacklisted) simp_all
  have r1: "classify doc_vocabulary (mk_line plain_methods n ''Pizza    $103'')
      (Some (mk_line plain_methods m ''  Tea $3'')) = StandaloneItem" for n m
    using noise(1) [of n] by (simp add: classify_def pizza)
  have r2: "classify doc_vocabulary (mk_line plain_methods n ''  Tea $3'') None = SubItemInherited" for n
    using noise(2) [of n] by (simp add: classify_def tea)
  have items: "parse_items doc_vocabulary plain_methods plain_rules [''Pizza    $103'', ''  Tea $3''] =
      [mk_item plain_methods plain_rules (mk_line plain_methods 1 ''Pizza    $103''),
       mk_sub_item plain_methods plain_rules
         (ancestor_price plain_methods
            [(mk_line plain_methods 1 ''Pizza    $103'', StandaloneItem)] 2)
         (mk_line plain_methods 2 ''  Tea $3'')]"
    unfolding parse_items_def lines by (simp add: r1 r2 indent_mk_line is_blank_def)
  have parent: "ancestor_price plain_methods
      [(mk_line plain_methods n ''Pizza    $103'', StandaloneItem)] 2 = Some 103" for n
    by (simp only: pizza) (simp add: stripped_lines plain_methods_def pizza_price)
  have "price (mk_item plain_methods plain_rules (mk_line plain_methods n ''Pizza    $103'')) = Some 103" for n
    by (simp only: pizza) (simp add: mk_item_def stripped_lines plain_methods_def pizza_price)
  moreover have "price (mk_sub_item plain_methods plain_rules (Some 103)
      (mk_line plain_methods n ''  Tea $3'')) = Some 103" for n
    by (rule mk_sub_item_inherits) (simp add: tea stripped_lines sub_has_price_examples)
  ultimately show ?thesis
    unfolding items parent by simp
qed

subsection \<open>Totals\<close>

lemma starts_with_iff: "starts_with k s \<longleftrightarrow> (\<exists>b. s = k @ b)"
proof (induction k arbitrary: s)
  case Nil
  then show ?case by simp
next
  case (Cons c k)
  then show ?case by (cases s) auto
qed

lemma contains_iff: "contains k s \<longleftrightarrow> (\<exists>a b. s = a @ k @ b)"
proof (induction s)
  case Nil
  then show ?case by simp
next
  case (Cons c s)
  show ?case
  proof
    assume "contains k (c # s)"
    then consider "starts_with k (c # s)" | "contains k s"
      by auto
    then show "\<exists>a b. c # s = a @ k @ b"
    proof cases
      case 1
      then obtain b where "c # s = [] @ k @ b"
        by (auto simp: starts_with_iff)
      then show ?thesis by blast
    next
      case 2
      then obtain a b where "s = a @ k @ b"
        using Cons.IH by blast
      then have "c # s = (c # a) @ k @ b"
        by simp
      then show ?thesis by blast
    qed
  next
    assume "\<exists>a b. c # s = a @ k @ b"
    then obtain a b where ab: "c # s = a @ k @ b"
      by blast
    show "contains k (c # s)"
    proof (cases a)
      case Nil
      with ab have "starts_with k (c # s)"
        by (auto simp: starts_with_iff)
      then show ?thesis by simp
    next
      case (Cons d a')
      with ab have "s = a' @ k @ b"
        by simp
      then have "contains k s"
        using Cons.IH by blast
      then show ?thesis by simp
    qed
  qed
qed

lemma subtotal_contains_total:
  assumes "contains ''subtotal'' s"
  shows "contains ''total'' s"
proof -
  from assms obtain a b where "s = a @ ''subtotal'' @ b"
    by (auto simp: contains_iff)
  then have "s = (a @ ''sub'') @ ''total'' @ b"
    by simp
  then show ?thesis
    unfolding contains_iff by blast
qed

lemma tokens_from_no_blank:
  "\<forall>c \<in> set t. \<not> is_blank c \<Longrightarrow>
   tokens_from cur t = (if cur = [] \<and> t = [] then [] else [rev cur @ t])"
  by (induction t arbitrary: cur) auto

lemma tokens_from_blank:
  "is_blank x \<Longrightarrow> tokens_from cur (s @ x # t) = tokens_from cur s @ tokens_from [] t"
  by (induction s arbitrary: cur) auto

lemma tokens_last:
  assumes "t \<noteq> []" and "\<forall>c \<in> set t. \<not> is_blank c"
  shows "tokens (s @ '' '' @ t) = tokens s @ [t]"
proof -
  have "is_blank (CHR '' '')"
    by (simp add: is_blank_def)
  then have "tokens_from [] (s @ CHR '' '' # t) = tokens_from [] s @ tokens_from [] t"
    by (rule tokens_from_blank)
  with assms show ?thesis
    by (simp add: tokens_def tokens_from_no_blank)
qed

lemma parse_decimal_chars:
  assumes "parse_decimal s = Some v"
  shows "\<forall>c \<in> set s. is_digit c \<or> c = CHR ''.''"
proof -
  have parts: "set s = set (takeWhile is_digit s) \<union> set (dropWhile is_digit s)"
    using set_append [of "takeWhile is_digit s" "dropWhile is_digit s"]
    by (simp only: takeWhile_dropWhile_id)
  have front: "\<forall>c \<in> set (takeWhile is_digit s). is_digit c"
    by (auto dest: set_takeWhileD)
  have rest_chars: "\<forall>c \<in> set (dropWhile is_digit s). is_digit c \<or> c = CHR ''.''"
  proof (cases "dropWhile is_digit s")
    case Nil
    then have "set (dropWhile is_digit s) = {}"
      by (simp only: list.set)
    then show ?thesis by (simp only: ball_empty)
  next
    case (Cons d fp)
    with assms have "d = CHR ''.'' \<and> list_all is_digit fp"
      by (simp add: parse_decimal_def Let_def split: if_splits)
    with Cons show ?thesis
      by (simp add: list_all_iff)
  qed
  from front rest_chars show ?thesis
    unfolding parts by blast
qed

lemma digit_not_blank: "is_digit c \<Longrightarrow> \<not> is_blank c"
  by (auto simp: is_digit_def is_blank_def)

lemma strip_currency_chars: "set x \<subseteq> insert CHR ''$'' (set (strip_currency x))"
  by (cases x) (auto simp: strip_currency_def)

lemma strip_commas_chars: "set t \<subseteq> insert CHR '','' (set (strip_commas t))"
  by (auto simp: strip_commas_def)

lemma parse_amount_empty: "parse_amount [] = None"
  by (simp add: parse_amount_def strip_commas_def strip_currency_def parse_decimal_def)

lemma amount_has_no_blank:
  assumes "parse_amount t = Some v"
  shows "t \<noteq> []" and "\<forall>c \<in> set t. \<not> is_blank c"
proof -
  show "t \<noteq> []"
    using assms parse_amount_empty by auto
  have inner: "\<forall>c \<in> set (strip_currency (strip_commas t)). is_digit c \<or> c = CHR ''.''"
    using assms by (intro parse_decimal_chars [of _ v]) (simp add: parse_amount_def)
  show "\<forall>c \<in> set t. \<not> is_blank c"
  proof
    fix c assume "c \<in> set t"
    then have "c = CHR '','' \<or> c \<in> set (strip_commas t)"
      using strip_commas_chars by blast
    then have "c = CHR '','' \<or> c = CHR ''$'' \<or> c \<in> set (strip_currency (strip_commas t))"
      using strip_currency_chars by blast
    with inner have "c = CHR '','' \<or> c = CHR ''$'' \<or> c = CHR ''.'' \<or> is_digit c"
      by blast
    then show "\<not> is_blank c"
      using digit_not_blank by (auto simp: is_blank_def)
  qed
qed

lemma rightmost_amount:
  assumes "parse_amount t = Some v"
  shows "find_amount (s @ '' '' @ t) = Some v"
proof -
  have "tokens (s @ '' '' @ t) = tokens s @ [t]"
    using amount_has_no_blank [OF assms] by (rule tokens_last)
  with assms show ?thesis
    by (simp add: find_amount_def)
qed

lemma commas_stripped: "parse_amount (a @ '','' @ b) = parse_amount (a @ b)"
  by (simp add: parse_amount_def strip_commas_def)

lemma amounts_of_append: "amounts_of k (xs @ ys) = amounts_of k xs @ amounts_of k ys"
  by (induction xs) simp_all

lemma amounts_of_Cons:
  "amounts_of k (a # ls) =
     (if line_keyword a = Some k \<and> find_amount a \<noteq> None then the (find_amount a) # amounts_of k ls
      else amounts_of k ls)"
  by (cases "find_amount a") simp_all

lemma set_amounts_of_Cons:
  "v \<in> set (amounts_of k (a # ls)) \<longleftrightarrow>
     (line_keyword a = Some k \<and> find_amount a = Some v) \<or> v \<in> set (amounts_of k ls)"
  by (cases "find_amount a"; cases "line_keyword a = Some k") auto

lemma amounts_of_source:
  "v \<in> set (amounts_of k ls) \<Longrightarrow> \<exists>l \<in> set ls. line_keyword l = Some k \<and> find_amount l = Some v"
proof (induction ls)
  case Nil
  then show ?case by simp
next
  case (Cons a ls)
  from Cons.prems have "(line_keyword a = Some k \<and> find_amount a = Some v) \<or> v \<in> set (amounts_of k ls)"
    by (simp only: set_amounts_of_Cons)
  then show ?case
    using Cons.IH by auto
qed

lemma amounts_of_none:
  "(\<forall>m \<in> set ls. line_keyword m = Some k \<longrightarrow> find_amount m = None) \<Longrightarrow> amounts_of k ls = []"
  by (induction ls) (simp_all add: amounts_of_Cons del: amounts_of.simps(2))

lemma amounts_of_filter:
  "(\<And>l. line_keyword l = Some k \<Longrightarrow> P l) \<Longrightarrow> amounts_of k (filter P ls) = amounts_of k ls"
proof (induction ls)
  case Nil
  then show ?case by simp
next
  case (Cons a ls)
  show ?case
  proof (cases "P a")
    case True
    with Cons show ?thesis
      by (simp add: amounts_of_Cons del: amounts_of.simps(2))
  next
    case False
    with Cons have "line_keyword a \<noteq> Some k"
      by blast
    with False Cons show ?thesis
      by (simp add: amounts_of_Cons del: amounts_of.simps(2))
  qed
qed

lemma last_option_source: "last_option xs = Some v \<Longrightarrow> v \<in> set xs"
  by (auto simp: last_option_def split: if_splits)

lemma keyword_without_subtotal:
  "line_keyword l = Some KwTotal \<or> line_keyword l = Some KwBalanceDue \<Longrightarrow>
   \<not> contains ''subtotal'' (map lower l)"
  by (auto simp: line_keyword_def Let_def split: if_splits)

lemma keyword_subtotal: "contains ''subtotal'' (map lower s) \<Longrightarrow> line_keyword s = Some KwSubtotal"
  by (simp add: line_keyword_def Let_def)

lemma keyword_total:
  "contains ''total'' (map lower s) \<Longrightarrow> \<not> contains ''subtotal'' (map lower s) \<Longrightarrow>
   line_keyword s = Some KwTotal"
  by (simp add: line_keyword_def Let_def)

lemma keyword_balance_due:
  "line_keyword s = Some KwBalanceDue \<longleftrightarrow>
     contains ''balance due'' (map lower s) \<and> \<not> contains ''total'' (map lower s)"
  using subtotal_contains_total [of "map lower s"]
  by (auto simp: line_keyword_def Let_def)

lemma receipt_total_source:
  assumes "receipt_total (extract_totals ls) = Some v"
  shows "\<exists>l \<in> set ls. (line_keyword l = Some KwTotal \<or> line_keyword l = Some KwBalanceDue) \<and>
           find_amount l = Some v"
proof (cases "last_option (amounts_of KwTotal ls)")
  case None
  with assms have "last_option (amounts_of KwBalanceDue ls) = Some v"
    by (simp add: extract_totals_def)
  then show ?thesis
    using amounts_of_source last_option_source by fast
next
  case (Some u)
  with assms have "last_option (amounts_of KwTotal ls) = Some v"
    by (simp add: extract_totals_def)
  then show ?thesis
    using amounts_of_source last_option_source by fast
qed

lemma total_ignores_subtotal_lines:
  "receipt_total (extract_totals (filter (\<lambda>l. \<not> contains ''subtotal'' (map lower l)) ls)) =
   receipt_total (extract_totals ls)"
proof -
  have "amounts_of KwTotal (filter (\<lambda>l. \<not> contains ''subtotal'' (map lower l)) ls) = amounts_of KwTotal ls"
    using keyword_without_subtotal by (intro amounts_of_filter) blast
  moreover have "amounts_of KwBalanceDue (filter (\<lambda>l. \<not> contains ''subtotal'' (map lower l)) ls) =
      amounts_of KwBalanceDue ls"
    using keyword_without_subtotal by (intro amounts_of_filter) blast
  ultimately show ?thesis
    by (simp add: extract_totals_def split: option.splits)
qed

lemma total_lines_first:
  "amounts_of KwTotal ls \<noteq> [] \<Longrightarrow>
   receipt_total (extract_totals ls) = Some (last (amounts_of KwTotal ls))"
  by (simp add: extract_totals_def last_option_def)

lemma balance_due_otherwise:
  "amounts_of KwTotal ls = [] \<Longrightarrow>
   receipt_total (extract_totals ls) = last_option (amounts_of KwBalanceDue ls)"
  by (simp add: extract_totals_def last_option_def)

lemma last_total_wins:
  assumes "line_keyword l = Some KwTotal" and "find_amount l = Some v"
    and "\<forall>m \<in> set post. line_keyword m = Some KwTotal \<longrightarrow> find_amount m = None"
  shows "receipt_total (extract_totals (pre @ l # post)) = Some v"
proof -
  have "amounts_of KwTotal (pre @ l # post) = amounts_of KwTotal pre @ [v]"
    using assms amounts_of_none [of post KwTotal] by (simp add: amounts_of_append)
  then show ?thesis
    by (simp add: extract_totals_def last_option_def)
qed

lemma comma_amount: "parse_amount ''1,060.0'' = Some 1060"
  by (simp add: parse_amount_def strip_currency_def strip_commas_def parse_decimal_def is_digit_def
      digits_val_def digit_val_def)

lemma two_comma_amount: "parse_amount ''$1,234,567.89'' = Some (123456789 / 100)"
  by (simp add: parse_amount_def strip_currency_def strip_commas_def parse_decimal_def is_digit_def
      digits_val_def digit_val_def)

lemma kw_change: "line_keyword ''Change 0.00'' = None"
  by (simp add: line_keyword_def lower_def)

lemma kw_total: "line_keyword ''TOTAL 1,060.0'' = Some KwTotal"
  by (simp add: line_keyword_def lower_def)

lemma example_keywords:
  "contains ''subtotal'' (map lower ''Subtotal  13.18'')"
  "contains ''total'' (map lower ''Take-Out Total   13.84'')"
  "\<not> contains ''subtotal'' (map lower ''Take-Out Total   13.84'')"
  "contains ''balance due'' (map lower ''Balance Due 13.84'')"
  "\<not> contains ''total'' (map lower ''Balance Due 13.84'')"
  by (simp_all add: lower_def)

lemma balance_due_amount: "parse_amount ''13.84'' = Some (1384 / 100)"
  by (simp add: parse_amount_def strip_currency_def strip_commas_def parse_decimal_def is_digit_def;
      simp add: digits_val_def digit_val_def)

lemma balance_due_amounts:
  "amounts_of KwTotal [''Subtotal  13.18'', ''Balance Due 13.84''] = []"
  "amounts_of KwBalanceDue [''Subtotal  13.18'', ''Balance Due 13.84''] = [1384 / 100]"
proof -
  have kw: "line_keyword ''Subtotal  13.18'' = Some KwSubtotal"
      "line_keyword ''Balance Due 13.84'' = Some KwBalanceDue"
    by (simp_all add: line_keyword_def lower_def)
  have "find_amount (''Balance Due'' @ '' '' @ ''13.84'') = Some (1384 / 100)"
    using balance_due_amount by (rule rightmost_amount)
  then have "find_amount ''Balance Due 13.84'' = Some (1384 / 100)"
    by simp
  with kw show "amounts_of KwTotal [''Subtotal  13.18'', ''Balance Due 13.84''] = []"
      "amounts_of KwBalanceDue [''Subtotal  13.18'', ''Balance Due 13.84''] = [1384 / 100]"
    by simp_all
qed

text \<open>
  Claim C6. The total of the receipt is never read from a line containing ``subtotal'':
  the total is the same when every such line is left out of the scan, and a total that is
  found is the amount of a total or balance-due line without ``subtotal'' in it. The
  keywords have the priority total (not within ``subtotal''), subtotal, balance due: a line
  containing ``subtotal'' is a subtotal line, a line containing ``total'' outside
  ``subtotal'' is a total line whatever else it contains, and a balance-due line contains no
  ``total''; the total comes from the total lines whenever one of them carries an amount,
  and from the balance-due lines otherwise, the subtotal from the subtotal lines. Every
  comma is stripped before an amount is read: a token reads the same with a comma put in
  anywhere, so \<open>1,060.0\<close> reads as 1060 and \<open>$1,234,567.89\<close> as 1234567.89. The
  amount of a line is read from its last token when that is an amount. When several total
  lines carry an amount, the last in document order gives the total.
\<close>

theorem total_from_last_total_line_never_subtotal:
  "receipt_total (extract_totals (filter (\<lambda>l. \<not> contains ''subtotal'' (map lower l)) ls)) =
     receipt_total (extract_totals ls) \<and>
   (receipt_total (extract_totals ls) = Some v \<longrightarrow>
      (\<exists>l \<in> set ls. \<not> contains ''subtotal'' (map lower l) \<and>
         (line_keyword l = Some KwTotal \<or> line_keyword l = Some KwBalanceDue) \<and>
         find_amount l = Some v)) \<and>
   (contains ''subtotal'' (map lower s) \<longrightarrow> line_keyword s = Some KwSubtotal) \<and>
   (contains ''total'' (map lower s) \<and> \<not> contains ''subtotal'' (map lower s) \<longrightarrow>
      line_keyword s = Some KwTotal) \<and>
   (line_keyword s = Some KwBalanceDue \<longleftrightarrow>
      contains ''balance due'' (map lower s) \<and> \<not> contains ''total'' (map lower s)) \<and>
   (amounts_of KwTotal ls \<noteq> [] \<longrightarrow>
      receipt_total (extract_totals ls) = Some (last (amounts_of KwTotal ls))) \<and>
   (amounts_of KwTotal ls = [] \<longrightarrow>
      receipt_total (extract_totals ls) = last_option (amounts_of KwBalanceDue ls)) \<and>
   receipt_subtotal (extract_totals ls) = last_option (amounts_of KwSubtotal ls) \<and>
   parse_amount (a @ '','' @ b) = parse_amount (a @ b) \<and>
   parse_amount ''1,060.0'' = Some 1060 \<and>
   parse_amount ''$1,234,567.89'' = Some (123456789 / 100) \<and>
   (parse_amount t = Some u \<longrightarrow> find_amount (label @ '' '' @ t) = Some u) \<and>
   (line_keyword l = Some KwTotal \<and> find_amount l = Some w \<and>
    (\<forall>m \<in> set post. line_keyword m = Some KwTotal \<longrightarrow> find_amount m = None) \<longrightarrow>
      receipt_total (extract_totals (pre @ l # post)) = Some w)"
proof (intro conjI impI)
  show "receipt_total (extract_totals (filter (\<lambda>l. \<not> contains ''subtotal'' (map lower l)) ls)) =
     receipt_total (extract_totals ls)"
    by (rule total_ignores_subtotal_lines)
next
  assume "receipt_total (extract_totals ls) = Some v"
  then obtain l where "l \<in> set ls"
      and "line_keyword l = Some KwTotal \<or> line_keyword l = Some KwBalanceDue"
      and "find_amount l = Some v"
    using receipt_total_source by blast
  then show "\<exists>l \<in> set ls. \<not> contains ''subtotal'' (map lower l) \<and>
         (line_keyword l = Some KwTotal \<or> line_keyword l = Some KwBalanceDue) \<and>
         find_amount l = Some v"
    using keyword_without_subtotal by blast
next
  assume "contains ''subtotal'' (map lower s)"
  then show "line_keyword s = Some KwSubtotal"
    by (rule keyword_subtotal)
next
  assume "contains ''total'' (map lower s) \<and> \<not> contains ''subtotal'' (map lower s)"
  then show "line_keyword s = Some KwTotal"
    using keyword_total by blast
next
  show "line_keyword s = Some KwBalanceDue \<longleftrightarrow>
      contains ''balance due'' (map lower s) \<and> \<not> contains ''total'' (map lower s)"
    by (rule keyword_balance_due)
next
  assume "amounts_of KwTotal ls \<noteq> []"
  then show "receipt_total (extract_totals ls) = Some (last (amounts_of KwTotal ls))"
    by (rule total_lines_first)
next
  assume "amounts_of KwTotal ls = []"
  then show "receipt_total (extract_totals ls) = last_option (amounts_of KwBalanceDue ls)"
    by (rule balance_due_otherwise)
next
  show "receipt_subtotal (extract_totals ls) = last_option (amounts_of KwSubtotal ls)"
    by (simp add: extract_totals_def)
next
  show "parse_amount (a @ '','' @ b) = parse_amount (a @ b)"
    by (rule commas_stripped)
next
  show "parse_amount ''1,060.0'' = Some 1060"
    by (rule comma_amount)
next
  show "parse_amount ''$1,234,567.89'' = Some (123456789 / 100)"
    by (rule two_comma_amount)
next
  assume "parse_amount t = Some u"
  then show "find_amount (label @ '' '' @ t) = Some u"
    by (rule rightmost_amount)
next
  assume "line_keyword l = Some KwTotal \<and> find_amount l = Some w \<and>
    (\<forall>m \<in> set post. line_keyword m = Some KwTotal \<longrightarrow> find_amount m = None)"
  then show "receipt_total (extract_totals (pre @ l # post)) = Some w"
    using last_total_wins by blast
qed

text \<open>
  On the lines \<open>Subtotal  13.18\<close>, \<open>Take-Out Total   13.84\<close>, \<open>TOTAL 1,060.0\<close>,
  \<open>Change 0.00\<close> the total is 1060, read from the last total line; without a total line
  the balance-due line gives the total.
\<close>

theorem total_from_last_total_line_never_subtotal_witness:
  "receipt_total (extract_totals
     [''Subtotal  13.18'', ''Take-Out Total   13.84'', ''TOTAL 1,060.0'', ''Change 0.00'']) = Some 1060 \<and>
   (\<exists>l \<in> set [''Subtotal  13.18'', ''Take-Out Total   13.84'', ''TOTAL 1,060.0'', ''Change 0.00''].
      \<not> contains ''subtotal'' (map lower l) \<and> find_amount l = Some 1060) \<and>
   line_keyword ''Subtotal  13.18'' = Some KwSubtotal \<and>
   line_keyword ''Take-Out Total   13.84'' = Some KwTotal \<and>
   line_keyword ''Balance Due 13.84'' = Some KwBalanceDue \<and>
   find_amount ''TOTAL 1,060.0'' = Some 1060 \<and>
   parse_amount ''1,060.0'' = parse_amount ''1060.0'' \<and>
   receipt_total (extract_totals [''Subtotal  13.18'', ''Balance Due 13.84'']) = Some (1384 / 100)"
proof -
  note claim = total_from_last_total_line_never_subtotal
    [where v = 1060 and a = "''1''" and b = "''060.0''" and t = "''1,060.0''" and u = 1060
      and label = "''TOTAL''" and l = "''TOTAL 1,060.0''" and w = 1060
      and post = "[''Change 0.00'']" and pre = "[''Subtotal  13.18'', ''Take-Out Total   13.84'']"]
  note lines = claim
    [where ls = "[''Subtotal  13.18'', ''Take-Out Total   13.84'', ''TOTAL 1,060.0'', ''Change 0.00'']"
      and s = "''Subtotal  13.18''"]
  note other = claim
    [where ls = "[''Subtotal  13.18'', ''Balance Due 13.84'']" and s = "''Take-Out Total   13.84''"]
  note third = claim
    [where ls = "[''Subtotal  13.18'', ''Balance Due 13.84'']" and s = "''Balance Due 13.84''"]
  have "parse_amount ''1,060.0'' = Some 1060"
    using lines by (elim conjE)
  moreover have "parse_amount ''1,060.0'' = Some 1060 \<longrightarrow>
      find_amount (''TOTAL'' @ '' '' @ ''1,060.0'') = Some 1060"
    using lines by (elim conjE)
  ultimately have "find_amount (''TOTAL'' @ '' '' @ ''1,060.0'') = Some 1060"
    by (rule rev_mp)
  then have amount: "find_amount ''TOTAL 1,060.0'' = Some 1060"
    by simp
  have "\<forall>m \<in> set [''Change 0.00'']. line_keyword m = Some KwTotal \<longrightarrow> find_amount m = None"
    by (simp add: kw_change)
  with kw_total amount have "line_keyword ''TOTAL 1,060.0'' = Some KwTotal \<and>
      find_amount ''TOTAL 1,060.0'' = Some 1060 \<and>
      (\<forall>m \<in> set [''Change 0.00'']. line_keyword m = Some KwTotal \<longrightarrow> find_amount m = None)"
    by (intro conjI)
  moreover have "line_keyword ''TOTAL 1,060.0'' = Some KwTotal \<and>
      find_amount ''TOTAL 1,060.0'' = Some 1060 \<and>
      (\<forall>m \<in> set [''Change 0.00'']. line_keyword m = Some KwTotal \<longrightarrow> find_amount m = None) \<longrightarrow>
      receipt_total (extract_totals
        ([''Subtotal  13.18'', ''Take-Out Total   13.84''] @ ''TOTAL 1,060.0'' # [''Change 0.00''])) = Some 1060"
    using lines by (elim conjE)
  ultimately have "receipt_total (extract_totals
     ([''Subtotal  13.18'', ''Take-Out Total   13.84''] @ ''TOTAL 1,060.0'' # [''Change 0.00''])) = Some 1060"
    by (rule rev_mp)
  then have last: "receipt_total (extract_totals
     [''Subtotal  13.18'', ''Take-Out Total   13.84'', ''TOTAL 1,060.0'', ''Change 0.00'']) = Some 1060"
    by simp
  moreover have "receipt_total (extract_totals
     [''Subtotal  13.18'', ''Take-Out Total   13.84'', ''TOTAL 1,060.0'', ''Change 0.00'']) = Some 1060 \<longrightarrow>
     (\<exists>l \<in> set [''Subtotal  13.18'', ''Take-Out Total   13.84'', ''TOTAL 1,060.0'', ''Change 0.00''].
        \<not> contains ''subtotal'' (map lower l) \<and>
        (line_keyword l = Some KwTotal \<or> line_keyword l = Some KwBalanceDue) \<and>
        find_amount l = Some 1060)"
    using lines by (elim conjE)
  ultimately have "\<exists>l \<in> set [''Subtotal  13.18'', ''Take-Out Total   13.84'', ''TOTAL 1,060.0'', ''Change 0.00''].
        \<not> contains ''subtotal'' (map lower l) \<and>
        (line_keyword l = Some KwTotal \<or> line_keyword l = Some KwBalanceDue) \<and>
        find_amount l = Some 1060"
    by (rule rev_mp)
  then have source: "\<exists>l \<in> set [''Subtotal  13.18'', ''Take-Out Total   13.84'', ''TOTAL 1,060.0'', ''Change 0.00''].
      \<not> contains ''subtotal'' (map lower l) \<and> find_amount l = Some 1060"
    by blast
  have "contains ''subtotal'' (map lower ''Subtotal  13.18'') \<longrightarrow>
      line_keyword ''Subtotal  13.18'' = Some KwSubtotal"
    using lines by (elim conjE)
  with example_keywords(1) have sub: "line_keyword ''Subtotal  13.18'' = Some KwSubtotal"
    by (rule rev_mp)
  have "contains ''total'' (map lower ''Take-Out Total   13.84'') \<and>
      \<not> contains ''subtotal'' (map lower ''Take-Out Total   13.84'') \<longrightarrow>
      line_keyword ''Take-Out Total   13.84'' = Some KwTotal"
    using other by (elim conjE)
  with example_keywords(2,3) have tot: "line_keyword ''Take-Out Total   13.84'' = Some KwTotal"
    by blast
  have "line_keyword ''Balance Due 13.84'' = Some KwBalanceDue \<longleftrightarrow>
      contains ''balance due'' (map lower ''Balance Due 13.84'') \<and>
      \<not> contains ''total'' (map lower ''Balance Due 13.84'')"
    using third by (elim conjE)
  with example_keywords(4,5) have due: "line_keyword ''Balance Due 13.84'' = Some KwBalanceDue"
    by blast
  have "parse_amount (''1'' @ '','' @ ''060.0'') = parse_amount (''1'' @ ''060.0'')"
    using lines by (elim conjE)
  then have comma: "parse_amount ''1,060.0'' = parse_amount ''1060.0''"
    by simp
  have "amounts_of KwTotal [''Subtotal  13.18'', ''Balance Due 13.84''] = [] \<longrightarrow>
      receipt_total (extract_totals [''Subtotal  13.18'', ''Balance Due 13.84'']) =
      last_option (amounts_of KwBalanceDue [''Subtotal  13.18'', ''Balance Due 13.84''])"
    using other by (elim conjE)
  with balance_due_amounts(1) have "receipt_total (extract_totals [''Subtotal  13.18'', ''Balance Due 13.84'']) =
      last_option (amounts_of KwBalanceDue [''Subtotal  13.18'', ''Balance Due 13.84''])"
    by (rule rev_mp)
  then have fallback: "receipt_total (extract_totals [''Subtotal  13.18'', ''Balance Due 13.84'']) =
      Some (1384 / 100)"
    by (simp only: balance_due_amounts(2)) (simp add: last_option_def)
  from last source sub tot due amount comma fallback show ?thesis
    by (intro conjI)
qed

end
